theory Spec2Isabelle
  imports Main "HOL-Library.Sublist"
begin

section \<open>Errors\<close>

text \<open>
  The exceptions that the modelled code can raise or let through.
  \<open>IndexError\<close> is Python's error for \<open>pop\<close> on an empty list and for
  \<open>xs[0]\<close> on an empty list, \<open>AttributeError\<close> the one for a missing attribute,
  \<open>ServiceCatalogException\<close> the one of \<open>base.url_for\<close>, and
  \<open>RemoteError\<close> stands for whatever the remote service client raises.
\<close>

datatype error =
    IndexError
  | AttributeError
  | ServiceCatalogException
  | RemoteError string

section \<open>api/api.py: update_pagination\<close>

text \<open>
  \<open>update_pagination(entities, page_size, marker, sort_dir)\<close>.
  The list is passed by value and the first component of the result is the
  content of the list object after the call (the function pops from its argument
  and returns that same object).  \<open>marker\<close> is \<open>None\<close> or a string,
  \<open>page_size\<close> a Python integer.  \<open>entities.pop()\<close> raises
  \<open>IndexError\<close> on an empty list, which can only happen when
  \<open>page_size\<close> is negative.
\<close>

definition update_pagination ::
  "'r list \<Rightarrow> int \<Rightarrow> string option \<Rightarrow> string \<Rightarrow> error + ('r list \<times> bool \<times> bool)" where
  "update_pagination entities page_size marker sort_dir =
     (if int (length entities) > page_size then
        (if entities = [] then Inl IndexError
         else Inr (butlast entities, True, marker \<noteq> None))
      else if sort_dir = ''asc'' \<and> marker \<noteq> None then Inr (entities, True, False)
      else if marker \<noteq> None then Inr (entities, False, True)
      else Inr (entities, False, False))"

text \<open>
  The trim-and-flag algorithm in the words of the specification (section 4.1,
  steps 1 to 4), for comparison with the function above.
\<close>

definition spec_trim_and_flag ::
  "'r list \<Rightarrow> int \<Rightarrow> string option \<Rightarrow> string \<Rightarrow> 'r list \<times> bool \<times> bool" where
  "spec_trim_and_flag records page_size cursor direction =
     (if int (length records) > page_size then
        (take (length records - 1) records, True, cursor \<noteq> None)
      else if direction = ''asc'' \<and> cursor \<noteq> None then (records, True, False)
      else if cursor \<noteq> None then (records, False, True)
      else (records, False, False))"

section \<open>Settings and requests\<close>

text \<open>
  What the code reads from Django's settings and from the request: the query
  parameters \<open>request.GET\<close> (\<open>GET.get(k, None)\<close> is the map applied to
  \<open>k\<close>) and the token.  \<open>base.url_for\<close> and \<open>utils.get_page_size\<close>
  belong to Horizon; their results for the request are fields of the request.
\<close>

record settings =
  SGS_SERVICE_URL :: "string option"
  SGS_SERVICE_INSECURE :: "bool option"

record request =
  GET :: "string \<rightharpoonup> string"
  user_token_id :: string
  url_for_sg_service :: "error + string"
  get_page_size :: int

section \<open>common/table.py: PagedTableMixin\<close>

text \<open>
  A table class contributes its \<open>_meta\<close> options only: the names of the two
  query parameters.  The view holds \<open>table_class\<close> (absent or \<open>None\<close> is
  \<open>None\<close> here: both raise \<open>AttributeError\<close> on \<open>._meta\<close>),
  \<open>table_classes\<close> (\<open>None\<close> when the attribute is missing) and the two
  private flags \<open>_has_prev_data\<close> and \<open>_has_more_data\<close>, each \<open>None\<close>
  as long as the attribute has not been set.  \<open>mixin_first\<close> records the order
  of the bases of the view's class: \<open>PagedTableMixin\<close> before Horizon's
  \<open>DataTableView\<close> (as in \<open>ReplicationsView\<close>) or after it (as in
  \<open>CheckpointsView\<close>).
\<close>

record table_meta =
  pagination_param :: string
  prev_pagination_param :: string

record paged_view =
  mixin_first :: bool
  table_class :: "table_meta option"
  table_classes :: "table_meta list option"
  priv_has_prev_data :: "bool option"
  priv_has_more_data :: "bool option"

text \<open>\<open>PagedTableMixin.__init__\<close> sets both flags to \<open>False\<close>.\<close>

definition PagedTableMixin_init :: "paged_view \<Rightarrow> paged_view" where
  "PagedTableMixin_init self =
     self\<lparr>priv_has_prev_data := Some False, priv_has_more_data := Some False\<rparr>"

text \<open>
  \<open>PagedTableMixin.has_prev_data\<close> and \<open>PagedTableMixin.has_more_data\<close> read
  the flag; reading an attribute that has not been set raises
  \<open>AttributeError\<close>.
\<close>

definition has_prev_data :: "paged_view \<Rightarrow> error + bool" where
  "has_prev_data self =
     (case priv_has_prev_data self of None \<Rightarrow> Inl AttributeError | Some b \<Rightarrow> Inr b)"

definition has_more_data :: "paged_view \<Rightarrow> error + bool" where
  "has_more_data self =
     (case priv_has_more_data self of None \<Rightarrow> Inl AttributeError | Some b \<Rightarrow> Inr b)"

text \<open>
  Two facts about the base classes, which are Horizon's and Django's and not
  part of the repository.  Horizon's \<open>MultiTableMixin\<close>, a base of
  \<open>DataTableView\<close>, has methods \<open>has_prev_data\<close> and \<open>has_more_data\<close> of
  its own, which return \<open>False\<close>; and the chain of \<open>__init__\<close> calls that
  starts at \<open>DataTableView\<close> ends in Django's \<open>View.__init__\<close>, which
  calls no further \<open>__init__\<close>.  So in a class that lists
  \<open>PagedTableMixin\<close> first, the mixin's \<open>__init__\<close> runs and the mixin's
  methods are the ones found; in a class that lists it last, its
  \<open>__init__\<close> does not run and Horizon's methods are the ones found.
\<close>

definition MultiTableMixin_has_prev_data :: "paged_view \<Rightarrow> bool" where
  "MultiTableMixin_has_prev_data self = False"

definition MultiTableMixin_has_more_data :: "paged_view \<Rightarrow> bool" where
  "MultiTableMixin_has_more_data self = False"

text \<open>
  A view object as the instantiation of its class leaves it, and the methods
  \<open>has_prev_data\<close> and \<open>has_more_data\<close> as a caller of the view finds them.
\<close>

definition new_view :: "bool \<Rightarrow> table_meta option \<Rightarrow> table_meta list option \<Rightarrow> paged_view" where
  "new_view first tc tcs =
     (let obj = \<lparr>mixin_first = first, table_class = tc, table_classes = tcs,
                 priv_has_prev_data = None, priv_has_more_data = None\<rparr>
      in if first then PagedTableMixin_init obj else obj)"

definition view_has_prev_data :: "paged_view \<Rightarrow> error + bool" where
  "view_has_prev_data self =
     (if mixin_first self then has_prev_data self
      else Inr (MultiTableMixin_has_prev_data self))"

definition view_has_more_data :: "paged_view \<Rightarrow> error + bool" where
  "view_has_more_data self =
     (if mixin_first self then has_more_data self
      else Inr (MultiTableMixin_has_more_data self))"

text \<open>Python's truth value of \<open>None\<close> or a string: only a non-empty string is true.\<close>

definition truthy :: "string option \<Rightarrow> bool" where
  "truthy v = (case v of None \<Rightarrow> False | Some s \<Rightarrow> s \<noteq> [])"

text \<open>
  The \<open>try\<close>/\<open>except AttributeError\<close> at the head of \<open>_get_marker\<close>:
  \<open>self.table_class._meta\<close>, falling back to \<open>self.table_classes[0]._meta\<close>,
  whose own errors propagate.
\<close>

definition view_meta :: "paged_view \<Rightarrow> error + table_meta" where
  "view_meta self =
     (case table_class self of
        Some c \<Rightarrow> Inr c
      | None \<Rightarrow>
          (case table_classes self of
             None \<Rightarrow> Inl AttributeError
           | Some [] \<Rightarrow> Inl IndexError
           | Some (c # _) \<Rightarrow> Inr c))"

text \<open>\<open>_get_marker\<close>, on the view and its request.\<close>

definition get_marker ::
  "paged_view \<Rightarrow> request \<Rightarrow> error + (string option \<times> string)" where
  "get_marker self req =
     (case view_meta self of
        Inl e \<Rightarrow> Inl e
      | Inr meta \<Rightarrow>
          (let prev_marker = GET req (prev_pagination_param meta) in
           if truthy prev_marker then Inr (prev_marker, ''asc'')
           else
             (let marker = GET req (pagination_param meta) in
              if truthy marker then Inr (marker, ''desc'')
              else Inr (None, ''desc''))))"

section \<open>api/api.py: the client and the paged list functions\<close>

text \<open>The client object that \<open>sgsclient\<close> builds.\<close>

record sgs_client =
  c_version :: int
  c_endpoint :: string
  c_token :: string
  c_insecure :: bool
  c_auth_token :: string
  c_management_url :: string

text \<open>
  \<open>_get_endpoint\<close>: the configured URL when it is set and not empty, the
  service catalogue's otherwise; an error of the catalogue is raised again.
\<close>

definition get_endpoint :: "settings \<Rightarrow> request \<Rightarrow> error + string" where
  "get_endpoint conf req =
     (case SGS_SERVICE_URL conf of
        None \<Rightarrow> url_for_sg_service req
      | Some endpoint \<Rightarrow>
          if endpoint = [] then url_for_sg_service req else Inr endpoint)"

definition sgsclient :: "settings \<Rightarrow> request \<Rightarrow> error + sgs_client" where
  "sgsclient conf req =
     (case get_endpoint conf req of
        Inl e \<Rightarrow> Inl e
      | Inr endpoint \<Rightarrow>
          (let insecure = (case SGS_SERVICE_INSECURE conf of None \<Rightarrow> True | Some b \<Rightarrow> b);
               token_id = user_token_id req
           in Inr \<lparr>c_version = 1, c_endpoint = endpoint, c_token = token_id,
                   c_insecure = insecure, c_auth_token = token_id,
                   c_management_url = endpoint\<rparr>))"

text \<open>
  The keyword arguments of a remote \<open>list\<close> call (\<open>None\<close> for an argument
  that is not passed), and the remote service as the client sees it: each
  \<open>list\<close> call returns the records or raises.  The service itself is not part
  of the repository, so it is a parameter of the model.
\<close>

record list_query =
  q_search_opts :: "(string \<times> string) list option"
  q_limit :: "int option"
  q_marker :: "string option"
  q_sort :: "string option"

record checkpoint =
  cp_id :: string
  cp_name :: string
  cp_replication_id :: string

record replication =
  rep_id :: string
  rep_name :: string

record 'b remote =
  backups_list :: "sgs_client \<Rightarrow> list_query \<Rightarrow> error + 'b list"
  checkpoints_list :: "sgs_client \<Rightarrow> list_query \<Rightarrow> error + checkpoint list"
  replications_list :: "sgs_client \<Rightarrow> list_query \<Rightarrow> error + replication list"

text \<open>
  \<open>volume_backup_list_paged\<close> wraps the records in \<open>VolumeBackup\<close> when it
  paginates and returns them as they come otherwise.
\<close>

datatype 'b backup_item = VolumeBackup 'b | Unwrapped 'b

text \<open>
  \<open>volume_backup_list_paged(request, marker, paginate, sort_dir)\<close>.  The test
  \<open>c_client is None\<close> never succeeds (\<open>sgsclient\<close> returns the client it
  built or raises), so that branch has no counterpart here.
\<close>

definition volume_backup_list_paged ::
  "settings \<Rightarrow> 'b remote \<Rightarrow> request \<Rightarrow> string option \<Rightarrow> bool \<Rightarrow> string \<Rightarrow>
   error + ('b backup_item list \<times> bool \<times> bool)" where
  "volume_backup_list_paged conf svc req marker paginate sort_dir =
     (case sgsclient conf req of
        Inl e \<Rightarrow> Inl e
      | Inr c_client \<Rightarrow>
          if paginate then
            (let page_size = get_page_size req;
                 sort = ''created_at:'' @ sort_dir
             in case backups_list svc c_client
                       \<lparr>q_search_opts = None, q_limit = Some (page_size + 1),
                        q_marker = marker, q_sort = Some sort\<rparr> of
                  Inl e \<Rightarrow> Inl e
                | Inr bs \<Rightarrow> update_pagination (map VolumeBackup bs) page_size marker sort_dir)
          else
            (case backups_list svc c_client
                    \<lparr>q_search_opts = None, q_limit = None, q_marker = None, q_sort = None\<rparr> of
               Inl e \<Rightarrow> Inl e
             | Inr bs \<Rightarrow> Inr (map Unwrapped bs, False, False)))"

definition volume_checkpoint_list_paged ::
  "settings \<Rightarrow> 'b remote \<Rightarrow> request \<Rightarrow> (string \<times> string) list option \<Rightarrow> string option \<Rightarrow>
   bool \<Rightarrow> string \<Rightarrow> error + (checkpoint list \<times> bool \<times> bool)" where
  "volume_checkpoint_list_paged conf svc req search_opts marker paginate sort_dir =
     (case sgsclient conf req of
        Inl e \<Rightarrow> Inl e
      | Inr c_client \<Rightarrow>
          if paginate then
            (let page_size = get_page_size req;
                 sort = ''created_at:'' @ sort_dir
             in case checkpoints_list svc c_client
                       \<lparr>q_search_opts = search_opts, q_limit = Some (page_size + 1),
                        q_marker = marker, q_sort = Some sort\<rparr> of
                  Inl e \<Rightarrow> Inl e
                | Inr cs \<Rightarrow> update_pagination cs page_size marker sort_dir)
          else
            (case checkpoints_list svc c_client
                    \<lparr>q_search_opts = search_opts, q_limit = None, q_marker = None,
                     q_sort = None\<rparr> of
               Inl e \<Rightarrow> Inl e
             | Inr cs \<Rightarrow> Inr (cs, False, False)))"

definition volume_replication_list_paged ::
  "settings \<Rightarrow> 'b remote \<Rightarrow> request \<Rightarrow> (string \<times> string) list option \<Rightarrow> string option \<Rightarrow>
   bool \<Rightarrow> string \<Rightarrow> error + (replication list \<times> bool \<times> bool)" where
  "volume_replication_list_paged conf svc req search_opts marker paginate sort_dir =
     (case sgsclient conf req of
        Inl e \<Rightarrow> Inl e
      | Inr c_client \<Rightarrow>
          if paginate then
            (let page_size = get_page_size req;
                 sort = ''created_at:'' @ sort_dir
             in case replications_list svc c_client
                       \<lparr>q_search_opts = search_opts, q_limit = Some (page_size + 1),
                        q_marker = marker, q_sort = Some sort\<rparr> of
                  Inl e \<Rightarrow> Inl e
                | Inr rs \<Rightarrow> update_pagination rs page_size marker sort_dir)
          else
            (case replications_list svc c_client
                    \<lparr>q_search_opts = search_opts, q_limit = None, q_marker = None,
                     q_sort = None\<rparr> of
               Inl e \<Rightarrow> Inl e
             | Inr rs \<Rightarrow> Inr (rs, False, False)))"

text \<open>\<open>volume_replication_list(request, search_opts)\<close>: the unpaged list, flags dropped.\<close>

definition volume_replication_list ::
  "settings \<Rightarrow> 'b remote \<Rightarrow> request \<Rightarrow> (string \<times> string) list option \<Rightarrow>
   error + replication list" where
  "volume_replication_list conf svc req search_opts =
     (case volume_replication_list_paged conf svc req search_opts None False ''desc'' of
        Inl e \<Rightarrow> Inl e
      | Inr (replications, _, _) \<Rightarrow> Inr replications)"

section \<open>checkpoints/views.py: CheckpointsView.get_data\<close>

text \<open>
  What \<open>get_data\<close> leaves behind: the value it returns or the exception it
  lets through, the view with its flags, and the calls it made to
  \<open>exceptions.handle\<close> (the caught exception and the message).  A returned
  checkpoint is paired with the value that \<open>setattr\<close> stores in its
  \<open>_replication\<close> attribute.
\<close>

record get_data_outcome =
  returned :: "error + (checkpoint \<times> replication option) list"
  view_after :: paged_view
  handled :: "(error \<times> string) list"

text \<open>
  \<open>dict((v.id, v) for v in replications)\<close>: of two replications with one id
  the later one stays.
\<close>

definition replications_dict :: "replication list \<Rightarrow> (string \<rightharpoonup> replication)" where
  "replications_dict replications = map_of (rev (map (\<lambda>v. (rep_id v, v)) replications))"

text \<open>
  The body of the \<open>try\<close>: the local variables \<open>checkpoints\<close> and
  \<open>replications\<close> and the view as they are when the body ends, and the exception
  that ended it, if any.  The tuple assignment of the paged list's result happens
  before the replications are listed.
\<close>

definition get_data_try ::
  "settings \<Rightarrow> 'b remote \<Rightarrow> request \<Rightarrow> paged_view \<Rightarrow>
   checkpoint list \<times> (string \<rightharpoonup> replication) \<times> paged_view \<times> error option" where
  "get_data_try conf svc req self =
     (case get_marker self req of
        Inl e \<Rightarrow> ([], Map.empty, self, Some e)
      | Inr (marker, sort_dir) \<Rightarrow>
          (case volume_checkpoint_list_paged conf svc req None marker True sort_dir of
             Inl e \<Rightarrow> ([], Map.empty, self, Some e)
           | Inr (checkpoints, has_more, has_prev) \<Rightarrow>
               (let self' = self\<lparr>priv_has_more_data := Some has_more,
                                    priv_has_prev_data := Some has_prev\<rparr> in
                case volume_replication_list conf svc req None of
                  Inl e \<Rightarrow> (checkpoints, Map.empty, self', Some e)
                | Inr replications \<Rightarrow>
                    (checkpoints, replications_dict replications, self', None))))"

definition retrieve_msg :: string where
  "retrieve_msg = ''Unable to retrieve volume checkpoints.''"

text \<open>
  \<open>get_data\<close>.  \<open>exceptions.handle\<close> is Horizon's: the parameter
  \<open>handle\<close> gives, for the caught exception and the message, the exception that
  it raises, or \<open>None\<close> when it returns.
\<close>

definition get_data ::
  "settings \<Rightarrow> 'b remote \<Rightarrow> (error \<Rightarrow> string \<Rightarrow> error option) \<Rightarrow> request \<Rightarrow> paged_view \<Rightarrow>
   get_data_outcome" where
  "get_data conf svc handle req self =
     (case get_data_try conf svc req self of
        (checkpoints, replications, self', None) \<Rightarrow>
          \<lparr>returned = Inr (map (\<lambda>c. (c, replications (cp_replication_id c))) checkpoints),
           view_after = self', handled = []\<rparr>
      | (checkpoints, replications, self', Some e) \<Rightarrow>
          \<lparr>returned =
             (case handle e retrieve_msg of
                Some raised \<Rightarrow> Inl raised
              | None \<Rightarrow> Inr (map (\<lambda>c. (c, replications (cp_replication_id c))) checkpoints)),
           view_after = self', handled = [(e, retrieve_msg)]\<rparr>)"

section \<open>List objects\<close>

text \<open>
  \<open>update_pagination\<close> pops from the list object it is given.  To tell one
  list object from another, a heap holds the content of every list object, and a
  reference is an index into it.
\<close>

type_synonym 'r heap = "'r list list"

definition new_list :: "'r heap \<Rightarrow> nat \<times> 'r heap" where
  "new_list h = (length h, h @ [[]])"

definition list_append :: "nat \<Rightarrow> 'r \<Rightarrow> 'r heap \<Rightarrow> 'r heap" where
  "list_append r x h = h[r := h ! r @ [x]]"

text \<open>
  \<open>update_pagination\<close> on a reference: the content of the object is replaced by
  what the call leaves in it, and the reference returned is the one passed.
\<close>

definition update_pagination_ref ::
  "nat \<Rightarrow> int \<Rightarrow> string option \<Rightarrow> string \<Rightarrow> 'r heap \<Rightarrow>
   error + ((nat \<times> bool \<times> bool) \<times> 'r heap)" where
  "update_pagination_ref entities page_size marker sort_dir h =
     (case update_pagination (h ! entities) page_size marker sort_dir of
        Inl e \<Rightarrow> Inl e
      | Inr (content, has_more, has_prev) \<Rightarrow>
          Inr ((entities, has_more, has_prev), h[entities := content]))"

text \<open>
  The paginating branch that the \<open>*_list_paged\<close> functions share, after the
  remote call has answered with \<open>fetched\<close>: a new list is filled with the
  records, one \<open>append\<close> each, and handed to \<open>update_pagination\<close>.
\<close>

definition paged_fetch ::
  "'r list \<Rightarrow> int \<Rightarrow> string option \<Rightarrow> string \<Rightarrow> 'r heap \<Rightarrow>
   error + ((nat \<times> bool \<times> bool) \<times> 'r heap)" where
  "paged_fetch fetched page_size marker sort_dir h =
     (case new_list h of
        (entities, h1) \<Rightarrow>
          update_pagination_ref entities page_size marker sort_dir
            (fold (list_append entities) fetched h1))"

text \<open>
  What a run of \<open>paged_fetch\<close> shows to its caller: the exception, or the
  content of the list it returned with the two flags.
\<close>

definition fetch_output ::
  "error + ((nat \<times> bool \<times> bool) \<times> 'r heap) \<Rightarrow> error + ('r list \<times> bool \<times> bool)" where
  "fetch_output res =
     (case res of
        Inl e \<Rightarrow> Inl e
      | Inr ((entities, has_more, has_prev), h) \<Rightarrow> Inr (h ! entities, has_more, has_prev))"

section \<open>Sample instances\<close>

text \<open>
  The table options of \<open>VolumeCheckpointsTable.Meta\<close> (checkpoints/tables.py),
  a new \<open>CheckpointsView\<close>, whose class lists \<open>PagedTableMixin\<close> after
  \<open>DataTableView\<close> (checkpoints/views.py), and for comparison a new view of a
  class with the same table that lists the mixin first.
\<close>

definition VolumeCheckpointsTable_meta :: table_meta where
  "VolumeCheckpointsTable_meta =
     \<lparr>pagination_param = ''checkpoint_marker'',
      prev_pagination_param = ''prev_checkpoint_marker''\<rparr>"

definition CheckpointsView :: paged_view where
  "CheckpointsView = new_view False (Some VolumeCheckpointsTable_meta) (Some [])"

definition mixin_first_view :: paged_view where
  "mixin_first_view = new_view True (Some VolumeCheckpointsTable_meta) (Some [])"

text \<open>
  A request with the given query parameters (of a repeated parameter the last
  value counts, as in Django's \<open>QueryDict.get\<close>) and page size, and empty
  settings.
\<close>

definition sample_request :: "(string \<times> string) list \<Rightarrow> int \<Rightarrow> request" where
  "sample_request params n =
     \<lparr>GET = map_of (rev params), user_token_id = ''token'',
      url_for_sg_service = Inr ''http://sg.example/v1'', get_page_size = n\<rparr>"

definition sample_settings :: settings where
  "sample_settings = \<lparr>SGS_SERVICE_URL = None, SGS_SERVICE_INSECURE = None\<rparr>"

text \<open>
  A sample remote service in the sense of section 6 of the specification: the
  stored records are kept in creation order, the listing is sorted in the
  requested direction (newest first unless \<open>created_at:asc\<close> is asked for),
  starts strictly after the record that the marker identifies, and is cut at the
  limit.  The sample service lists backups this way, fails on every checkpoint
  listing and has no replications.
\<close>

definition remote_list :: "('r \<Rightarrow> string) \<Rightarrow> 'r list \<Rightarrow> list_query \<Rightarrow> 'r list" where
  "remote_list ident stored q =
     (let ordered = (if q_sort q = Some ''created_at:asc'' then stored else rev stored);
          rest = (case q_marker q of
                    None \<Rightarrow> ordered
                  | Some m \<Rightarrow> drop 1 (dropWhile (\<lambda>r. ident r \<noteq> m) ordered))
      in case q_limit q of None \<Rightarrow> rest | Some n \<Rightarrow> take (nat n) rest)"

definition sample_remote :: "string list \<Rightarrow> string remote" where
  "sample_remote stored =
     \<lparr>backups_list = (\<lambda>c q. Inr (remote_list id stored q)),
      checkpoints_list = (\<lambda>c q. Inl (RemoteError ''503'')),
      replications_list = (\<lambda>c q. Inr [])\<rparr>"

section \<open>Properties of update_pagination\<close>

lemma update_pagination_returns:
  "0 \<le> page_size \<or> entities \<noteq> [] \<Longrightarrow>
   \<exists>items has_more has_prev.
     update_pagination entities page_size marker sort_dir = Inr (items, has_more, has_prev)"
  by (auto simp: update_pagination_def)

text \<open>
  C1.  For every list of fetched records, every positive page size, every optional
  marker and every sort direction, \<open>update_pagination\<close> returns, without raising,
  exactly what the trim-and-flag algorithm of the specification prescribes.
\<close>

theorem update_pagination_refines_spec:
  "0 < page_size \<Longrightarrow>
   update_pagination entities page_size marker sort_dir =
     Inr (spec_trim_and_flag entities page_size marker sort_dir)"
  by (auto simp: update_pagination_def spec_trim_and_flag_def butlast_conv_take)

theorem update_pagination_refines_spec_witness:
  "(0::int) < 2 \<and>
   update_pagination [''e'', ''d'', ''c''] 2 None ''desc'' = Inr ([''e'', ''d''], True, False) \<and>
   spec_trim_and_flag [''e'', ''d'', ''c''] 2 None ''desc'' = ([''e'', ''d''], True, False)"
  using update_pagination_refines_spec [of 2 "[''e'', ''d'', ''c'']" None "''desc''"]
  by (simp add: spec_trim_and_flag_def)

text \<open>
  C2, as stated, fails: \<open>update_pagination\<close> pops one record only, so three
  records with a page size of one leave two items.
\<close>

theorem page_size_bound_counterexample:
  "update_pagination [''a'', ''b'', ''c''] 1 None ''desc'' = Inr ([''a'', ''b''], True, False) \<and>
   \<not> int (length [''a'', ''b'']) \<le> 1"
  by (simp add: update_pagination_def)

text \<open>
  C2, amended.  For every positive page size and every input list of at most
  \<open>page_size + 1\<close> records (the limit that the list functions ask the backend
  for), \<open>update_pagination\<close> returns at most \<open>page_size\<close> items.
\<close>

theorem page_size_bound_within_limit:
  "0 < page_size \<Longrightarrow> int (length entities) \<le> page_size + 1 \<Longrightarrow>
   \<exists>items has_more has_prev.
     update_pagination entities page_size marker sort_dir = Inr (items, has_more, has_prev) \<and>
     int (length items) \<le> page_size"
  by (auto simp: update_pagination_def)

theorem page_size_bound_within_limit_witness:
  "(0::int) < 2 \<and> int (length [''e'', ''d'', ''c'']) \<le> 2 + 1 \<and>
   (\<exists>items has_more has_prev.
      update_pagination [''e'', ''d'', ''c''] 2 (Some ''f'') ''desc'' =
        Inr (items, has_more, has_prev) \<and>
      int (length items) \<le> 2)"
  using page_size_bound_within_limit [of 2 "[''e'', ''d'', ''c'']" "Some ''f''" "''desc''"]
  by simp

text \<open>
  C5, as stated, fails: a fetch of exactly \<open>page_size\<close> records reached with a
  marker in ascending direction reports \<open>has_more = True\<close> (the branch
  "first page condition when reached via prev back").
\<close>

theorem exact_page_has_more_counterexample:
  "int (length [''c'', ''d'']) = 2 \<and>
   update_pagination [''c'', ''d''] 2 (Some ''b'') ''asc'' = Inr ([''c'', ''d''], True, False)"
  by (simp add: update_pagination_def)

text \<open>
  C5, amended.  For every positive page size: when the fetch returns exactly
  \<open>page_size\<close> records, the records are returned unchanged and \<open>has_more\<close> is
  true exactly when the direction is \<open>asc\<close> and the marker is not null (so it is
  false for every other request); when the fetch returns \<open>page_size + 1\<close>
  records, \<open>has_more\<close> is true and the items are the fetched records without
  the last one.
\<close>

theorem boundary_has_more:
  "0 < page_size \<Longrightarrow>
   (int (length entities) = page_size \<longrightarrow>
      (\<exists>has_prev. update_pagination entities page_size marker sort_dir =
         Inr (entities, sort_dir = ''asc'' \<and> marker \<noteq> None, has_prev))) \<and>
   (int (length entities) = page_size + 1 \<longrightarrow>
      (\<exists>has_prev. update_pagination entities page_size marker sort_dir =
         Inr (butlast entities, True, has_prev)) \<and>
      int (length (butlast entities)) = page_size \<and>
      entities = butlast entities @ [last entities])"
  by (auto simp: update_pagination_def)

theorem boundary_has_more_witness:
  "(0::int) < 2 \<and>
   int (length [''e'', ''d'']) = 2 \<and>
   (\<exists>has_prev. update_pagination [''e'', ''d''] 2 None ''desc'' =
      Inr ([''e'', ''d''], False, has_prev)) \<and>
   int (length [''e'', ''d'', ''c'']) = 2 + 1 \<and>
   (\<exists>has_prev. update_pagination [''e'', ''d'', ''c''] 2 None ''desc'' =
      Inr ([''e'', ''d''], True, has_prev))"
  using boundary_has_more [of 2 "[''e'', ''d'']" None "''desc''"]
    boundary_has_more [of 2 "[''e'', ''d'', ''c'']" None "''desc''"]
  by simp

text \<open>
  C6.  With \<open>sort_dir = 'asc'\<close>, a marker that is not null and no more than
  \<open>page_size\<close> records, \<open>update_pagination\<close> returns the records unchanged
  with \<open>has_more = True\<close> and \<open>has_prev = False\<close>.
\<close>

theorem asc_branch_flags:
  "int (length entities) \<le> page_size \<Longrightarrow>
   update_pagination entities page_size (Some cursor) ''asc'' = Inr (entities, True, False)"
  by (simp add: update_pagination_def)

theorem asc_branch_flags_witness:
  "int (length [''c'', ''d'']) \<le> 2 \<and>
   update_pagination [''c'', ''d''] 2 (Some ''b'') ''asc'' = Inr ([''c'', ''d''], True, False)"
  using asc_branch_flags [of "[''c'', ''d'']" 2 "''b''"]
  by simp

text \<open>
  C9.  With a null marker \<open>update_pagination\<close> never returns \<open>has_prev = True\<close>,
  whatever the records, the page size and the direction; and it does return
  (with \<open>has_prev = False\<close>) unless the page size is negative and the list empty.
\<close>

theorem null_marker_no_prev:
  "(\<forall>items has_more.
      update_pagination entities page_size None sort_dir \<noteq> Inr (items, has_more, True)) \<and>
   (0 \<le> page_size \<or> entities \<noteq> [] \<longrightarrow>
      (\<exists>items has_more.
         update_pagination entities page_size None sort_dir = Inr (items, has_more, False)))"
  by (auto simp: update_pagination_def)

theorem null_marker_no_prev_witness:
  "(\<forall>items has_more.
      update_pagination [''e'', ''d'', ''c''] 2 None ''asc'' \<noteq> Inr (items, has_more, True)) \<and>
   (\<exists>items has_more.
      update_pagination [''e'', ''d'', ''c''] 2 None ''asc'' = Inr (items, has_more, False))"
  using null_marker_no_prev [of "[''e'', ''d'', ''c'']" 2 "''asc''"]
  by simp

text \<open>
  C10.  The items returned by \<open>update_pagination\<close> are a prefix of the fetched
  list: the list without its last record when the count exceeds the page size,
  the list itself otherwise.
\<close>

theorem items_are_prefix:
  "0 \<le> page_size \<or> entities \<noteq> [] \<Longrightarrow>
   \<exists>items has_more has_prev.
     update_pagination entities page_size marker sort_dir = Inr (items, has_more, has_prev) \<and>
     prefix items entities \<and>
     (if int (length entities) > page_size
      then items = butlast entities \<and> entities = items @ [last entities]
      else items = entities)"
  by (auto simp: update_pagination_def prefixeq_butlast)

theorem items_are_prefix_witness:
  "((0::int) \<le> 1 \<or> [''a'', ''b'', ''c''] \<noteq> []) \<and>
   (\<exists>items has_more has_prev.
      update_pagination [''a'', ''b'', ''c''] 1 (Some ''z'') ''desc'' =
        Inr (items, has_more, has_prev) \<and>
      prefix items [''a'', ''b'', ''c''] \<and>
      items = [''a'', ''b''])"
  using items_are_prefix [of 1 "[''a'', ''b'', ''c'']" "Some ''z''" "''desc''"]
  by simp

text \<open>The four scenarios of section 8 of the specification, after the fetch.\<close>

lemma scenario_A:
  "update_pagination [''e'', ''d'', ''c''] 2 None ''desc'' = Inr ([''e'', ''d''], True, False)"
  by (simp add: update_pagination_def)

lemma scenario_B:
  "update_pagination [''c'', ''b'', ''a''] 2 (Some ''d'') ''desc'' =
     Inr ([''c'', ''b''], True, True)"
  by (simp add: update_pagination_def)

lemma scenario_C:
  "update_pagination [''a''] 2 (Some ''b'') ''desc'' = Inr ([''a''], False, True)"
  by (simp add: update_pagination_def)

lemma scenario_D:
  "update_pagination [''c'', ''d''] 2 (Some ''b'') ''asc'' = Inr ([''c'', ''d''], True, False)"
  by (simp add: update_pagination_def)

section \<open>Properties of the marker resolution\<close>

text \<open>
  C7, as stated, fails: a prev-marker that is present but empty is passed over.
  With \<open>prev_checkpoint_marker=\<close> and \<open>checkpoint_marker=x\<close> in the query the
  result is \<open>(x, desc)\<close>, not the prev-marker with \<open>asc\<close>.
\<close>

theorem get_marker_empty_prev_counterexample:
  "GET (sample_request [(''prev_checkpoint_marker'', ''''), (''checkpoint_marker'', ''x'')] 2)
       (prev_pagination_param VolumeCheckpointsTable_meta) = Some '''' \<and>
   get_marker CheckpointsView
     (sample_request [(''prev_checkpoint_marker'', ''''), (''checkpoint_marker'', ''x'')] 2)
     = Inr (Some ''x'', ''desc'')"
  by (simp add: get_marker_def view_meta_def CheckpointsView_def new_view_def
      VolumeCheckpointsTable_meta_def sample_request_def truthy_def)

text \<open>
  C7, amended.  For a view whose table options resolve, \<open>_get_marker\<close> returns
  the prev-marker with \<open>asc\<close> when the prev-marker is present and not empty;
  otherwise the next-marker with \<open>desc\<close> when that one is present and not
  empty; otherwise \<open>None\<close> with \<open>desc\<close>.
\<close>

theorem get_marker_resolution:
  "view_meta self = Inr meta \<Longrightarrow>
   (\<forall>p. GET req (prev_pagination_param meta) = Some p \<and> p \<noteq> [] \<longrightarrow>
        get_marker self req = Inr (Some p, ''asc'')) \<and>
   (\<forall>n. (GET req (prev_pagination_param meta) = None \<or>
         GET req (prev_pagination_param meta) = Some []) \<and>
        GET req (pagination_param meta) = Some n \<and> n \<noteq> [] \<longrightarrow>
        get_marker self req = Inr (Some n, ''desc'')) \<and>
   ((GET req (prev_pagination_param meta) = None \<or>
     GET req (prev_pagination_param meta) = Some []) \<and>
    (GET req (pagination_param meta) = None \<or>
     GET req (pagination_param meta) = Some []) \<longrightarrow>
        get_marker self req = Inr (None, ''desc''))"
  by (auto simp: get_marker_def truthy_def)

theorem get_marker_resolution_witness:
  "view_meta CheckpointsView = Inr VolumeCheckpointsTable_meta \<and>
   get_marker CheckpointsView
     (sample_request [(''prev_checkpoint_marker'', ''b''), (''checkpoint_marker'', ''d'')] 2)
     = Inr (Some ''b'', ''asc'') \<and>
   get_marker CheckpointsView
     (sample_request [(''prev_checkpoint_marker'', ''''), (''checkpoint_marker'', ''d'')] 2)
     = Inr (Some ''d'', ''desc'') \<and>
   get_marker CheckpointsView (sample_request [(''checkpoint_marker'', '''')] 2)
     = Inr (None, ''desc'')"
proof -
  have m: "view_meta CheckpointsView = Inr VolumeCheckpointsTable_meta"
    by (simp add: view_meta_def CheckpointsView_def new_view_def)
  show ?thesis
    using m
      get_marker_resolution [OF m,
        of "sample_request [(''prev_checkpoint_marker'', ''b''), (''checkpoint_marker'', ''d'')] 2"]
      get_marker_resolution [OF m,
        of "sample_request [(''prev_checkpoint_marker'', ''''), (''checkpoint_marker'', ''d'')] 2"]
      get_marker_resolution [OF m, of "sample_request [(''checkpoint_marker'', '''')] 2"]
    by (simp add: sample_request_def VolumeCheckpointsTable_meta_def)
qed

section \<open>Properties of the paged fetch\<close>

lemma butlast_overshoot:
  "n < length xs \<Longrightarrow> butlast (take (Suc n) xs) = take n xs"
  by (simp add: butlast_take)

text \<open>
  C4.  For a page size of at least one and a backend that holds the records
  \<open>held\<close> (in the order of the listing) and answers the first-page request
  (no marker, \<open>desc\<close>) with the first \<open>page_size + 1\<close> of them, or with all
  of them when it holds fewer,
  \<open>volume_backup_list_paged\<close> returns \<open>min (length held) page_size\<close> items
  (the first ones, wrapped), \<open>has_more\<close> exactly when more than
  \<open>page_size\<close> records are held, and \<open>has_prev = False\<close>.
\<close>

theorem first_page_of_backups:
  assumes "1 \<le> get_page_size req"
    and "sgsclient conf req = Inr c_client"
    and "backups_list svc c_client
           \<lparr>q_search_opts = None, q_limit = Some (get_page_size req + 1),
            q_marker = None, q_sort = Some ''created_at:desc''\<rparr>
         = Inr (take (nat (get_page_size req + 1)) held)"
  shows "\<exists>items.
           volume_backup_list_paged conf svc req None True ''desc'' =
             Inr (items, int (length held) > get_page_size req, False) \<and>
           items = map VolumeBackup (take (nat (get_page_size req)) held) \<and>
           int (length items) = min (int (length held)) (get_page_size req)"
proof -
  define n where "n = nat (get_page_size req)"
  have ps: "get_page_size req = int n" and lim: "nat (get_page_size req + 1) = Suc n"
    using assms(1) by (simp_all add: n_def)
  have run: "volume_backup_list_paged conf svc req None True ''desc'' =
               update_pagination (map VolumeBackup (take (Suc n) held)) (int n) None ''desc''"
    using assms(2,3) by (simp add: volume_backup_list_paged_def lim ps [symmetric])
  show ?thesis
  proof (cases "n < length held")
    case True
    then have "update_pagination (map VolumeBackup (take (Suc n) held)) (int n) None ''desc'' =
                 Inr (map VolumeBackup (take n held), True, False)"
      by (auto simp: update_pagination_def map_butlast [symmetric] butlast_overshoot min_def)
    with True show ?thesis by (simp add: run ps)
  next
    case False
    then have "update_pagination (map VolumeBackup (take (Suc n) held)) (int n) None ''desc'' =
                 Inr (map VolumeBackup (take n held), False, False)"
      by (simp add: update_pagination_def)
    with False show ?thesis by (simp add: run ps)
  qed
qed

theorem first_page_of_backups_witness:
  "volume_backup_list_paged sample_settings (sample_remote [''a'', ''b'', ''c'', ''d'', ''e''])
     (sample_request [] 2) None True ''desc'' =
     Inr ([VolumeBackup ''e'', VolumeBackup ''d''], True, False) \<and>
   int (length [VolumeBackup ''e'', VolumeBackup ''d'']) =
     min (int (length [''e'', ''d'', ''c'', ''b'', ''a''])) 2"
proof -
  let ?req = "sample_request [] 2"
  let ?c = "\<lparr>c_version = 1, c_endpoint = ''http://sg.example/v1'', c_token = ''token'',
             c_insecure = True, c_auth_token = ''token'',
             c_management_url = ''http://sg.example/v1''\<rparr>"
  have 1: "1 \<le> get_page_size ?req"
    by (simp add: sample_request_def)
  have 2: "sgsclient sample_settings ?req = Inr ?c"
    by (simp add: sgsclient_def get_endpoint_def sample_settings_def sample_request_def Let_def)
  have 3: "backups_list (sample_remote [''a'', ''b'', ''c'', ''d'', ''e'']) ?c
             \<lparr>q_search_opts = None, q_limit = Some (get_page_size ?req + 1),
              q_marker = None, q_sort = Some ''created_at:desc''\<rparr>
           = Inr (take (nat (get_page_size ?req + 1)) [''e'', ''d'', ''c'', ''b'', ''a''])"
    by (simp add: sample_remote_def remote_list_def sample_request_def)
  show ?thesis
    using first_page_of_backups [OF 1 2 3] by (simp add: sample_request_def)
qed

text \<open>
  The heap model of the fetch: filling a new list object with the records gives
  an object with exactly these records, and the output of the run is the value
  of \<open>update_pagination\<close> on them.
\<close>

lemma fold_list_append:
  "fold (list_append (length h)) xs (h @ [ys]) = h @ [ys @ xs]"
  by (induction xs arbitrary: ys) (simp_all add: list_append_def)

lemma paged_fetch_unfolded:
  "paged_fetch fetched page_size marker sort_dir h =
     (case update_pagination fetched page_size marker sort_dir of
        Inl e \<Rightarrow> Inl e
      | Inr (items, has_more, has_prev) \<Rightarrow>
          Inr ((length h, has_more, has_prev), h @ [items]))"
  using fold_list_append [of h fetched "[]"]
  by (simp add: paged_fetch_def new_list_def update_pagination_ref_def split: sum.split)

lemma paged_fetch_output:
  "fetch_output (paged_fetch fetched page_size marker sort_dir h) =
     update_pagination fetched page_size marker sort_dir"
  by (simp add: paged_fetch_unfolded fetch_output_def split: sum.split)

text \<open>
  C8.  For fixed marker, direction and page size and a fixed backend response,
  the output of the paged fetch is the same whatever list objects exist already;
  in particular a second run after a first one returns the same flags and a list
  with the same items, and leaves the list returned by the first run as it was.
\<close>

theorem repeated_fetch_identical:
  "fetch_output (paged_fetch fetched page_size marker sort_dir h) =
     fetch_output (paged_fetch fetched page_size marker sort_dir h') \<and>
   (paged_fetch fetched page_size marker sort_dir h = Inr ((r1, flags), h1) \<longrightarrow>
      (\<exists>r2 h2.
         paged_fetch fetched page_size marker sort_dir h1 = Inr ((r2, flags), h2) \<and>
         h2 ! r2 = h1 ! r1 \<and> h2 ! r1 = h1 ! r1))"
proof -
  have "\<exists>r2 h2. paged_fetch fetched page_size marker sort_dir h1 = Inr ((r2, flags), h2) \<and>
                 h2 ! r2 = h1 ! r1 \<and> h2 ! r1 = h1 ! r1"
    if "paged_fetch fetched page_size marker sort_dir h = Inr ((r1, flags), h1)"
  proof -
    from that obtain items where
      up: "update_pagination fetched page_size marker sort_dir = Inr (items, flags)"
      and r1: "r1 = length h" and h1: "h1 = h @ [items]"
      by (auto simp: paged_fetch_unfolded split: sum.splits)
    have "paged_fetch fetched page_size marker sort_dir h1 =
            Inr ((length h1, flags), h1 @ [items])"
      by (cases flags) (simp add: paged_fetch_unfolded up)
    moreover have "(h1 @ [items]) ! length h1 = h1 ! r1" "(h1 @ [items]) ! r1 = h1 ! r1"
      by (simp_all add: r1 h1 nth_append)
    ultimately show ?thesis by blast
  qed
  then show ?thesis
    by (simp add: paged_fetch_output)
qed

theorem repeated_fetch_identical_witness:
  "paged_fetch [''e'', ''d'', ''c''] 2 None ''desc'' [] = Inr ((0, True, False), [[''e'', ''d'']]) \<and>
   (\<exists>r2 h2.
      paged_fetch [''e'', ''d'', ''c''] 2 None ''desc'' [[''e'', ''d'']] =
        Inr ((r2, True, False), h2) \<and>
      h2 ! r2 = [[''e'', ''d'']] ! 0 \<and> h2 ! 0 = [[''e'', ''d'']] ! 0)"
proof -
  have run: "paged_fetch [''e'', ''d'', ''c''] 2 None ''desc'' [] =
               Inr ((0, True, False), [[''e'', ''d'']])"
    by (simp add: paged_fetch_def new_list_def list_append_def update_pagination_ref_def
        update_pagination_def)
  show ?thesis
    using run
      repeated_fetch_identical [of "[''e'', ''d'', ''c'']" 2 None "''desc''" "[]" "[]"
        0 "(True, False)" "[[''e'', ''d'']]"]
    by simp
qed

text \<open>
  The runs agree because each fills a list object of its own: handing one and
  the same object to \<open>update_pagination\<close> twice trims it twice.
\<close>

lemma same_object_twice:
  "update_pagination_ref 0 1 None ''desc'' [[''a'', ''b'', ''c'']] =
     Inr ((0, True, False), [[''a'', ''b'']]) \<and>
   update_pagination_ref 0 1 None ''desc'' [[''a'', ''b'']] =
     Inr ((0, True, False), [[''a'']])"
  by (simp add: update_pagination_ref_def update_pagination_def)

section \<open>Properties of CheckpointsView.get_data\<close>

text \<open>
  A failing list call of the paged listing ends the \<open>try\<close> body before
  anything is assigned: whatever the state of the view, it is left as it was.
\<close>

lemma get_data_failed_list:
  assumes "get_marker self req = Inr (marker, sort_dir)"
    and "sgsclient conf req = Inr c_client"
    and "checkpoints_list svc c_client
           \<lparr>q_search_opts = None, q_limit = Some (get_page_size req + 1),
            q_marker = marker, q_sort = Some (''created_at:'' @ sort_dir)\<rparr> = Inl e"
  shows "get_data conf svc handle req self =
           \<lparr>returned = (case handle e retrieve_msg of
                          Some raised \<Rightarrow> Inl raised
                        | None \<Rightarrow> Inr []),
            view_after = self,
            handled = [(e, retrieve_msg)]\<rparr>"
proof -
  have paged: "volume_checkpoint_list_paged conf svc req None marker True sort_dir = Inl e"
    using assms(2,3) by (simp add: volume_checkpoint_list_paged_def)
  have body: "get_data_try conf svc req self = ([], Map.empty, self, Some e)"
    using assms(1) paged by (simp add: get_data_try_def)
  show ?thesis
    by (simp add: get_data_def body split: option.split)
qed

lemma new_view_flags:
  "view_has_more_data (new_view first tc tcs) = Inr False"
  "view_has_prev_data (new_view first tc tcs) = Inr False"
  by (simp_all add: view_has_more_data_def view_has_prev_data_def new_view_def Let_def
      PagedTableMixin_init_def has_more_data_def has_prev_data_def
      MultiTableMixin_has_more_data_def MultiTableMixin_has_prev_data_def)

text \<open>
  C3.  When the remote list call of the paged checkpoint listing raises,
  \<open>get_data\<close> does no trimming and sets no flag: the view is left as it was,
  the exception is handed to \<open>exceptions.handle\<close> with the retrieval message,
  and what the caller gets is the empty list (or the exception that
  \<open>exceptions.handle\<close> raises), never a part of a page.  On the view of the
  request, which is a new one, the caller then reads \<open>has_more_data\<close> and
  \<open>has_prev_data\<close> as false, whichever way the class orders its bases.
\<close>

theorem failed_list_call_no_items:
  assumes "get_marker self req = Inr (marker, sort_dir)"
    and "sgsclient conf req = Inr c_client"
    and "checkpoints_list svc c_client
           \<lparr>q_search_opts = None, q_limit = Some (get_page_size req + 1),
            q_marker = marker, q_sort = Some (''created_at:'' @ sort_dir)\<rparr> = Inl e"
  shows "get_data conf svc handle req self =
           \<lparr>returned = (case handle e retrieve_msg of
                          Some raised \<Rightarrow> Inl raised
                        | None \<Rightarrow> Inr []),
            view_after = self,
            handled = [(e, retrieve_msg)]\<rparr> \<and>
         (self = new_view first tc tcs \<longrightarrow>
            view_has_more_data (view_after (get_data conf svc handle req self)) = Inr False \<and>
            view_has_prev_data (view_after (get_data conf svc handle req self)) = Inr False)"
proof -
  note outcome = get_data_failed_list [OF assms, of handle]
  have unchanged: "view_after (get_data conf svc handle req self) = self"
    by (simp add: outcome)
  have "view_has_more_data (view_after (get_data conf svc handle req self)) = Inr False"
    "view_has_prev_data (view_after (get_data conf svc handle req self)) = Inr False"
    if "self = new_view first tc tcs"
    using unchanged that by (simp_all add: new_view_flags)
  with outcome show ?thesis
    by blast
qed

theorem failed_list_call_no_items_witness:
  "get_data sample_settings (sample_remote [''a'', ''b'', ''c''])
       (\<lambda>e msg. None) (sample_request [(''checkpoint_marker'', ''d'')] 2) CheckpointsView =
     \<lparr>returned = Inr [], view_after = CheckpointsView,
      handled = [(RemoteError ''503'', retrieve_msg)]\<rparr> \<and>
   view_has_more_data
     (view_after (get_data sample_settings (sample_remote [''a'', ''b'', ''c''])
        (\<lambda>e msg. None) (sample_request [(''checkpoint_marker'', ''d'')] 2) CheckpointsView))
     = Inr False \<and>
   view_has_prev_data
     (view_after (get_data sample_settings (sample_remote [''a'', ''b'', ''c''])
        (\<lambda>e msg. None) (sample_request [(''checkpoint_marker'', ''d'')] 2) CheckpointsView))
     = Inr False \<and>
   view_has_more_data
     (view_after (get_data sample_settings (sample_remote [''a'', ''b'', ''c''])
        (\<lambda>e msg. None) (sample_request [(''checkpoint_marker'', ''d'')] 2) mixin_first_view))
     = Inr False \<and>
   view_has_prev_data
     (view_after (get_data sample_settings (sample_remote [''a'', ''b'', ''c''])
        (\<lambda>e msg. None) (sample_request [(''checkpoint_marker'', ''d'')] 2) mixin_first_view))
     = Inr False"
proof -
  let ?req = "sample_request [(''checkpoint_marker'', ''d'')] 2"
  let ?c = "\<lparr>c_version = 1, c_endpoint = ''http://sg.example/v1'', c_token = ''token'',
             c_insecure = True, c_auth_token = ''token'',
             c_management_url = ''http://sg.example/v1''\<rparr>"
  have 1: "get_marker CheckpointsView ?req = Inr (Some ''d'', ''desc'')"
    by (simp add: get_marker_def view_meta_def CheckpointsView_def new_view_def
        VolumeCheckpointsTable_meta_def sample_request_def truthy_def)
  have 4: "get_marker mixin_first_view ?req = Inr (Some ''d'', ''desc'')"
    by (simp add: get_marker_def view_meta_def mixin_first_view_def new_view_def
        PagedTableMixin_init_def VolumeCheckpointsTable_meta_def sample_request_def truthy_def)
  have 2: "sgsclient sample_settings ?req = Inr ?c"
    by (simp add: sgsclient_def get_endpoint_def sample_settings_def sample_request_def Let_def)
  have 3: "checkpoints_list (sample_remote [''a'', ''b'', ''c'']) ?c
           \<lparr>q_search_opts = None, q_limit = Some (get_page_size ?req + 1),
            q_marker = Some ''d'', q_sort = Some (''created_at:'' @ ''desc'')\<rparr>
           = Inl (RemoteError ''503'')"
    by (simp add: sample_remote_def)
  have a: "CheckpointsView = new_view False (Some VolumeCheckpointsTable_meta) (Some [])"
    by (simp add: CheckpointsView_def)
  have b: "mixin_first_view = new_view True (Some VolumeCheckpointsTable_meta) (Some [])"
    by (simp add: mixin_first_view_def)
  note r1 = failed_list_call_no_items [OF 1 2 3, of "\<lambda>e msg. None" False
      "Some VolumeCheckpointsTable_meta" "Some []"]
  note r2 = failed_list_call_no_items [OF 4 2 3, of "\<lambda>e msg. None" True
      "Some VolumeCheckpointsTable_meta" "Some []"]
  have "get_data sample_settings (sample_remote [''a'', ''b'', ''c''])
          (\<lambda>e msg. None) ?req CheckpointsView =
        \<lparr>returned = Inr [], view_after = CheckpointsView,
         handled = [(RemoteError ''503'', retrieve_msg)]\<rparr>"
    using r1 by simp
  moreover from r1 a have
    "view_has_more_data (view_after (get_data sample_settings
       (sample_remote [''a'', ''b'', ''c'']) (\<lambda>e msg. None) ?req CheckpointsView)) = Inr False"
    "view_has_prev_data (view_after (get_data sample_settings
       (sample_remote [''a'', ''b'', ''c'']) (\<lambda>e msg. None) ?req CheckpointsView)) = Inr False"
    by blast+
  moreover from r2 b have
    "view_has_more_data (view_after (get_data sample_settings
       (sample_remote [''a'', ''b'', ''c'']) (\<lambda>e msg. None) ?req mixin_first_view)) = Inr False"
    "view_has_prev_data (view_after (get_data sample_settings
       (sample_remote [''a'', ''b'', ''c'']) (\<lambda>e msg. None) ?req mixin_first_view)) = Inr False"
    by blast+
  ultimately show ?thesis
    by blast
qed

text \<open>
  The false flags are those of the new view: \<open>get_data\<close> itself resets
  nothing, so on a view object whose flags an earlier call had set, a failing
  list call leaves them set.
\<close>

lemma failed_list_call_keeps_old_flags:
  assumes "get_marker self req = Inr (marker, sort_dir)"
    and "sgsclient conf req = Inr c_client"
    and "checkpoints_list svc c_client
           \<lparr>q_search_opts = None, q_limit = Some (get_page_size req + 1),
            q_marker = marker, q_sort = Some (''created_at:'' @ sort_dir)\<rparr> = Inl e"
    and "mixin_first self" and "priv_has_more_data self = Some True"
  shows "view_has_more_data (view_after (get_data conf svc handle req self)) = Inr True"
  using assms(4,5)
  by (simp add: get_data_failed_list [OF assms(1-3)] view_has_more_data_def has_more_data_def)

text \<open>
  For comparison: when the paged listing succeeds and the listing of the
  replications (the lookup table for the rows) raises, the page and its flags
  are kept and the rows have no replication.
\<close>

lemma failed_replication_list_keeps_page:
  assumes "get_marker self req = Inr (marker, sort_dir)"
    and "volume_checkpoint_list_paged conf svc req None marker True sort_dir =
           Inr (checkpoints, has_more, has_prev)"
    and "volume_replication_list conf svc req None = Inl e"
    and "handle e retrieve_msg = None"
  shows "get_data conf svc handle req self =
           \<lparr>returned = Inr (map (\<lambda>c. (c, None)) checkpoints),
            view_after = self\<lparr>priv_has_more_data := Some has_more,
                              priv_has_prev_data := Some has_prev\<rparr>,
            handled = [(e, retrieve_msg)]\<rparr>"
  using assms by (simp add: get_data_def get_data_try_def)

end
